theory Spec2Isabelle
  imports Main
begin

section \<open>The remote MCP client example (09-mcp/client-remote-mcp.py)\<close>

text \<open>
  The script is one coroutine, \<^verbatim>\<open>remote_mcp_example\<close>, that sequences calls into three
  external libraries inside one two-item \<^verbatim>\<open>async with\<close> statement, preceded by a
  module-level call of \<^verbatim>\<open>load_dotenv()\<close>.  The libraries are not part of the script:
  they are a parameter of the model (the record \<open>world\<close>), and every call the script
  makes into them is written to a log together with what the call answered.  A call that
  raises is the left injection of a sum.
\<close>

subsection \<open>Objects, exceptions and the external collaborators\<close>

text \<open>Python objects are opaque references; an exception carries its description.\<close>

type_synonym obj = nat

datatype exn = Exception string

text \<open>
  The collaborators, one field per call the script makes, in the argument order of the
  source.  \<^verbatim>\<open>__aexit__\<close> receives the exception in flight (\<open>None\<close> when the body
  completed) and answers a truth value: a true answer suppresses the exception.
  The built-in \<^verbatim>\<open>print\<close> is among them: converting its argument or writing to the
  stream can raise.
\<close>

record 'r world =
  load_dotenv :: "exn + bool"
  mcp_tool_new :: "string \<Rightarrow> string \<Rightarrow> exn + obj"
  mcp_tool_aenter :: "obj \<Rightarrow> exn + obj"
  mcp_tool_aexit :: "obj \<Rightarrow> exn option \<Rightarrow> exn + bool"
  cli_credential_new :: "exn + obj"
  chat_client_new :: "obj \<Rightarrow> exn + obj"
  chat_agent_new :: "obj \<Rightarrow> string \<Rightarrow> string \<Rightarrow> exn + obj"
  chat_agent_aenter :: "obj \<Rightarrow> exn + obj"
  chat_agent_aexit :: "obj \<Rightarrow> exn option \<Rightarrow> exn + bool"
  agent_run :: "obj \<Rightarrow> string \<Rightarrow> obj \<Rightarrow> exn + 'r"
  builtin_print :: "'r \<Rightarrow> exn + unit"

subsection \<open>The log of calls\<close>

datatype 'r event =
    is_Load_dotenv: Load_dotenv
  | is_MCPStreamableHTTPTool: MCPStreamableHTTPTool string string
  | is_Tool_aenter: Tool_aenter obj
  | is_AzureCliCredential: AzureCliCredential
  | is_AzureOpenAIChatClient: AzureOpenAIChatClient obj
  | is_ChatAgent: ChatAgent obj string string
  | is_Agent_aenter: Agent_aenter obj
  | is_Run: Run obj string obj
  | is_Print: Print 'r
  | is_Agent_aexit: Agent_aexit obj "exn option"
  | is_Tool_aexit: Tool_aexit obj "exn option"

text \<open>What a call answered, with the identity of a returned object left out.\<close>

datatype 'r reply =
    Raises exn
  | Gives_object
  | Gives_flag bool
  | Gives_result 'r
  | Gives_none

type_synonym ('r, 'a) action = "('r event \<times> 'r reply) list \<times> (exn + 'a)"

definition call_object :: "'r event \<Rightarrow> exn + obj \<Rightarrow> ('r, obj) action" where
  "call_object ev out =
     ([(ev, case out of Inl e \<Rightarrow> Raises e | Inr _ \<Rightarrow> Gives_object)], out)"

definition call_flag :: "'r event \<Rightarrow> exn + bool \<Rightarrow> ('r, bool) action" where
  "call_flag ev out =
     ([(ev, case out of Inl e \<Rightarrow> Raises e | Inr b \<Rightarrow> Gives_flag b)], out)"

definition call_result :: "'r event \<Rightarrow> exn + 'r \<Rightarrow> ('r, 'r) action" where
  "call_result ev out =
     ([(ev, case out of Inl e \<Rightarrow> Raises e | Inr r \<Rightarrow> Gives_result r)], out)"

definition call_none :: "'r event \<Rightarrow> exn + unit \<Rightarrow> ('r, unit) action" where
  "call_none ev out =
     ([(ev, case out of Inl e \<Rightarrow> Raises e | Inr _ \<Rightarrow> Gives_none)], out)"

text \<open>
  \<^verbatim>\<open>print\<close> writes its argument to standard output and returns None, or raises.
\<close>

definition print :: "'r world \<Rightarrow> 'r \<Rightarrow> ('r, unit) action" where
  "print w r = call_none (Print r) (builtin_print w r)"

text \<open>Sequencing: an exception skips the rest.\<close>

fun seq :: "('r, 'a) action \<Rightarrow> ('a \<Rightarrow> ('r, 'b) action) \<Rightarrow> ('r, 'b) action" where
  "seq (log, Inl e) f = (log, Inl e)"
| "seq (log, Inr a) f = (case f a of (log', out) \<Rightarrow> (log @ log', out))"

subsection \<open>The \<^verbatim>\<open>async with\<close> statement\<close>

text \<open>
  \<^verbatim>\<open>async with EXPR as v: BODY\<close> evaluates the context expression, awaits
  \<^verbatim>\<open>__aenter__\<close> of the manager and binds its answer to \<open>v\<close>, and runs the body.
  Once \<^verbatim>\<open>__aenter__\<close> has returned, \<^verbatim>\<open>__aexit__\<close> of the manager is awaited on
  every way out of the body: with \<open>None\<close> when the body completed, with the exception
  when it raised.  In the second case the exception is raised again unless
  \<^verbatim>\<open>__aexit__\<close> answered true; an exception of \<^verbatim>\<open>__aexit__\<close> itself replaces it.
\<close>

definition async_with ::
  "('r, obj) action \<Rightarrow> (obj \<Rightarrow> ('r, obj) action) \<Rightarrow>
   (obj \<Rightarrow> exn option \<Rightarrow> ('r, bool) action) \<Rightarrow>
   (obj \<Rightarrow> ('r, unit) action) \<Rightarrow> ('r, unit) action" where
  "async_with mgr aenter aexit body =
     seq mgr (\<lambda>m.
     seq (aenter m) (\<lambda>v.
       case body v of
         (log, Inr _) \<Rightarrow>
           seq (log, Inr ()) (\<lambda>_. seq (aexit m None) (\<lambda>_. ([], Inr ())))
       | (log, Inl e) \<Rightarrow>
           (case aexit m (Some e) of
              (log', Inl e') \<Rightarrow> (log @ log', Inl e')
            | (log', Inr suppress) \<Rightarrow>
                (log @ log', if suppress then Inr () else Inl e))))"

subsection \<open>The coroutine\<close>

text \<open>
  The two items of the \<^verbatim>\<open>async with\<close> are nested left to right: the tool is
  constructed and entered first, then the agent's context expression is evaluated
  (credential, chat client, agent, innermost argument first) and entered, then the body
  runs the one query and prints its result.
\<close>

definition remote_mcp_example :: "'r world \<Rightarrow> ('r, unit) action" where
  "remote_mcp_example w =
     async_with
       (call_object
          (MCPStreamableHTTPTool ''Microsoft Learn MCP'' ''https://learn.microsoft.com/api/mcp'')
          (mcp_tool_new w ''Microsoft Learn MCP'' ''https://learn.microsoft.com/api/mcp''))
       (\<lambda>m. call_object (Tool_aenter m) (mcp_tool_aenter w m))
       (\<lambda>m x. call_flag (Tool_aexit m x) (mcp_tool_aexit w m x))
       (\<lambda>mcp_server.
          async_with
            (seq (call_object AzureCliCredential (cli_credential_new w)) (\<lambda>credential.
             seq (call_object (AzureOpenAIChatClient credential)
                    (chat_client_new w credential)) (\<lambda>chat_client.
             call_object
               (ChatAgent chat_client ''MSLearnAgent''
                  ''You help with Microsoft documentation questions.'')
               (chat_agent_new w chat_client ''MSLearnAgent''
                  ''You help with Microsoft documentation questions.''))))
            (\<lambda>m. call_object (Agent_aenter m) (chat_agent_aenter w m))
            (\<lambda>m x. call_flag (Agent_aexit m x) (chat_agent_aexit w m x))
            (\<lambda>agent.
               seq (call_result
                      (Run agent ''What is the Azure Container Apps service'' mcp_server)
                      (agent_run w agent ''What is the Azure Container Apps service''
                         mcp_server))
                 (\<lambda>result. print w result)))"

text \<open>The calls of one run in order, what they answered, and how the run ended.\<close>

definition trace :: "'r world \<Rightarrow> 'r event list" where
  "trace w = map fst (fst (remote_mcp_example w))"

definition replies :: "'r world \<Rightarrow> 'r reply list" where
  "replies w = map snd (fst (remote_mcp_example w))"

definition outcome :: "'r world \<Rightarrow> exn + unit" where
  "outcome w = snd (remote_mcp_example w)"

text \<open>Standard output: the values whose \<^verbatim>\<open>print\<close> returned, in order.\<close>

fun printed :: "('r event \<times> 'r reply) list \<Rightarrow> 'r list" where
  "printed [] = []"
| "printed ((Print r, Gives_none) # es) = r # printed es"
| "printed (_ # es) = printed es"

definition stdout :: "'r world \<Rightarrow> 'r list" where
  "stdout w = printed (fst (remote_mcp_example w))"

subsection \<open>The module\<close>

text \<open>
  Executing the module calls \<^verbatim>\<open>load_dotenv()\<close> (its answer is dropped), defines the
  coroutine, and runs it through \<^verbatim>\<open>asyncio.run\<close> when the module is the entry point;
  \<^verbatim>\<open>asyncio.run\<close> returns what the coroutine returns and raises what it raises.
\<close>

definition module_body :: "'r world \<Rightarrow> string \<Rightarrow> ('r, unit) action" where
  "module_body w name =
     seq (call_flag Load_dotenv (load_dotenv w)) (\<lambda>_.
       if name = ''__main__'' then remote_mcp_example w else ([], Inr ()))"

text \<open>
  One process: the module is executed once under the given \<^verbatim>\<open>__name__\<close>; when that
  succeeded, the coroutine it defined can be invoked again any number of times, each
  invocation meeting its own behaviour of the collaborators.
\<close>

definition process_trace :: "'r world \<Rightarrow> string \<Rightarrow> 'r world list \<Rightarrow> 'r event list" where
  "process_trace w name later =
     (case module_body w name of
        (log, Inl e) \<Rightarrow> map fst log
      | (log, Inr _) \<Rightarrow> map fst log @ concat (map trace later))"


subsection \<open>Mock collaborators\<close>

text \<open>A collaborator set in which every call succeeds and no release suppresses.\<close>

definition mock :: "string world" where
  "mock = \<lparr> load_dotenv = Inr True,
      mcp_tool_new = (\<lambda>n u. Inr 1),
      mcp_tool_aenter = (\<lambda>m. Inr m),
      mcp_tool_aexit = (\<lambda>m x. Inr False),
      cli_credential_new = Inr 2,
      chat_client_new = (\<lambda>c. Inr 3),
      chat_agent_new = (\<lambda>k n i. Inr 4),
      chat_agent_aenter = (\<lambda>m. Inr m),
      chat_agent_aexit = (\<lambda>m x. Inr False),
      agent_run = (\<lambda>a q t. Inr ''Azure Container Apps is a serverless container service.''),
      builtin_print = (\<lambda>r. Inr ()) \<rparr>"

text \<open>The same, with other object identities.\<close>

definition mock' :: "string world" where
  "mock' = mock \<lparr> mcp_tool_new := (\<lambda>n u. Inr 11), cli_credential_new := Inr 12,
      chat_client_new := (\<lambda>c. Inr 13), chat_agent_new := (\<lambda>k n i. Inr 14) \<rparr>"

definition mock_credential_fails :: "string world" where
  "mock_credential_fails = mock \<lparr> cli_credential_new := Inl (Exception ''AuthenticationError'') \<rparr>"

definition mock_tool_unreachable :: "string world" where
  "mock_tool_unreachable = mock \<lparr> mcp_tool_aenter := (\<lambda>m. Inl (Exception ''ConnectionError'')) \<rparr>"

definition mock_query_fails :: "string world" where
  "mock_query_fails = mock \<lparr> agent_run := (\<lambda>a q t. Inl (Exception ''BackendError'')) \<rparr>"

text \<open>Every call succeeds but the release of the tool connection, which raises.\<close>

definition mock_tool_close_fails :: "string world" where
  "mock_tool_close_fails = mock \<lparr> mcp_tool_aexit := (\<lambda>m x. Inl (Exception ''ToolCloseError'')) \<rparr>"

text \<open>The query raises and the release of the tool connection answers true.\<close>

definition mock_release_suppresses :: "string world" where
  "mock_release_suppresses = mock_query_fails \<lparr> mcp_tool_aexit := (\<lambda>m x. Inr True) \<rparr>"

subsection \<open>Proof tools\<close>

text \<open>The five string literals of the source, named so that proofs do not carry them.\<close>

definition tool_name :: string where
  "tool_name = ''Microsoft Learn MCP''"

definition tool_url :: string where
  "tool_url = ''https://learn.microsoft.com/api/mcp''"

definition agent_name :: string where
  "agent_name = ''MSLearnAgent''"

definition agent_instructions :: string where
  "agent_instructions = ''You help with Microsoft documentation questions.''"

definition query_text :: string where
  "query_text = ''What is the Azure Container Apps service''"



section \<open>Properties\<close>

lemmas literal_defs =
  tool_name_def tool_url_def agent_name_def agent_instructions_def query_text_def

lemma remote_mcp_example_folded:
  "remote_mcp_example w =
     async_with
       (call_object (MCPStreamableHTTPTool tool_name tool_url) (mcp_tool_new w tool_name tool_url))
       (\<lambda>m. call_object (Tool_aenter m) (mcp_tool_aenter w m))
       (\<lambda>m x. call_flag (Tool_aexit m x) (mcp_tool_aexit w m x))
       (\<lambda>mcp_server.
          async_with
            (seq (call_object AzureCliCredential (cli_credential_new w)) (\<lambda>credential.
             seq (call_object (AzureOpenAIChatClient credential)
                    (chat_client_new w credential)) (\<lambda>chat_client.
             call_object
               (ChatAgent chat_client agent_name agent_instructions)
               (chat_agent_new w chat_client agent_name agent_instructions))))
            (\<lambda>m. call_object (Agent_aenter m) (chat_agent_aenter w m))
            (\<lambda>m x. call_flag (Agent_aexit m x) (chat_agent_aexit w m x))
            (\<lambda>agent.
               seq (call_result (Run agent query_text mcp_server)
                      (agent_run w agent query_text mcp_server))
                 (\<lambda>result. print w result)))"
  unfolding literal_defs by (rule remote_mcp_example_def)

lemmas rme_defs =
  remote_mcp_example_folded async_with_def call_object_def call_flag_def call_result_def
  call_none_def print_def

lemmas run_defs = trace_def replies_def outcome_def stdout_def

lemmas mock_defs =
  mock_def mock'_def mock_credential_fails_def mock_tool_unreachable_def mock_query_fails_def
  mock_tool_close_fails_def mock_release_suppresses_def

subsection \<open>The nine ways through the coroutine\<close>

text \<open>
  A run stops at the first call that raises, or runs to the end.  Each way fixes the
  calls made; only the argument of the tool's release is left open where the agent's
  release decides it.
\<close>

lemma trace_cases [case_names tool_new_raises tool_aenter_raises credential_raises
    chat_client_raises chat_agent_raises agent_aenter_raises run_raises print_raises
    run_returns]:
  fixes w :: "'r world"
  obtains
    (tool_new_raises) e where
      "mcp_tool_new w tool_name tool_url = Inl e"
      "trace w = [MCPStreamableHTTPTool tool_name tool_url]"
  | (tool_aenter_raises) t e where
      "mcp_tool_new w tool_name tool_url = Inr t" "mcp_tool_aenter w t = Inl e"
      "trace w = [MCPStreamableHTTPTool tool_name tool_url, Tool_aenter t]"
  | (credential_raises) t s e where
      "mcp_tool_new w tool_name tool_url = Inr t" "mcp_tool_aenter w t = Inr s"
      "cli_credential_new w = Inl e"
      "trace w = [MCPStreamableHTTPTool tool_name tool_url, Tool_aenter t,
                  AzureCliCredential, Tool_aexit t (Some e)]"
  | (chat_client_raises) t s c e where
      "mcp_tool_new w tool_name tool_url = Inr t" "mcp_tool_aenter w t = Inr s"
      "cli_credential_new w = Inr c" "chat_client_new w c = Inl e"
      "trace w = [MCPStreamableHTTPTool tool_name tool_url, Tool_aenter t,
                  AzureCliCredential, AzureOpenAIChatClient c, Tool_aexit t (Some e)]"
  | (chat_agent_raises) t s c k e where
      "mcp_tool_new w tool_name tool_url = Inr t" "mcp_tool_aenter w t = Inr s"
      "cli_credential_new w = Inr c" "chat_client_new w c = Inr k"
      "chat_agent_new w k agent_name agent_instructions = Inl e"
      "trace w = [MCPStreamableHTTPTool tool_name tool_url, Tool_aenter t,
                  AzureCliCredential, AzureOpenAIChatClient c,
                  ChatAgent k agent_name agent_instructions, Tool_aexit t (Some e)]"
  | (agent_aenter_raises) t s c k a e where
      "mcp_tool_new w tool_name tool_url = Inr t" "mcp_tool_aenter w t = Inr s"
      "cli_credential_new w = Inr c" "chat_client_new w c = Inr k"
      "chat_agent_new w k agent_name agent_instructions = Inr a"
      "chat_agent_aenter w a = Inl e"
      "trace w = [MCPStreamableHTTPTool tool_name tool_url, Tool_aenter t,
                  AzureCliCredential, AzureOpenAIChatClient c,
                  ChatAgent k agent_name agent_instructions, Agent_aenter a,
                  Tool_aexit t (Some e)]"
  | (run_raises) t s c k a g e y where
      "mcp_tool_new w tool_name tool_url = Inr t" "mcp_tool_aenter w t = Inr s"
      "cli_credential_new w = Inr c" "chat_client_new w c = Inr k"
      "chat_agent_new w k agent_name agent_instructions = Inr a"
      "chat_agent_aenter w a = Inr g" "agent_run w g query_text s = Inl e"
      "trace w = [MCPStreamableHTTPTool tool_name tool_url, Tool_aenter t,
                  AzureCliCredential, AzureOpenAIChatClient c,
                  ChatAgent k agent_name agent_instructions, Agent_aenter a,
                  Run g query_text s, Agent_aexit a (Some e), Tool_aexit t y]"
  | (print_raises) t s c k a g r e y where
      "mcp_tool_new w tool_name tool_url = Inr t" "mcp_tool_aenter w t = Inr s"
      "cli_credential_new w = Inr c" "chat_client_new w c = Inr k"
      "chat_agent_new w k agent_name agent_instructions = Inr a"
      "chat_agent_aenter w a = Inr g" "agent_run w g query_text s = Inr r"
      "builtin_print w r = Inl e"
      "trace w = [MCPStreamableHTTPTool tool_name tool_url, Tool_aenter t,
                  AzureCliCredential, AzureOpenAIChatClient c,
                  ChatAgent k agent_name agent_instructions, Agent_aenter a,
                  Run g query_text s, Print r, Agent_aexit a (Some e), Tool_aexit t y]"
  | (run_returns) t s c k a g r y where
      "mcp_tool_new w tool_name tool_url = Inr t" "mcp_tool_aenter w t = Inr s"
      "cli_credential_new w = Inr c" "chat_client_new w c = Inr k"
      "chat_agent_new w k agent_name agent_instructions = Inr a"
      "chat_agent_aenter w a = Inr g" "agent_run w g query_text s = Inr r"
      "builtin_print w r = Inr ()"
      "trace w = [MCPStreamableHTTPTool tool_name tool_url, Tool_aenter t,
                  AzureCliCredential, AzureOpenAIChatClient c,
                  ChatAgent k agent_name agent_instructions, Agent_aenter a,
                  Run g query_text s, Print r, Agent_aexit a None, Tool_aexit t y]"
proof (cases "mcp_tool_new w tool_name tool_url")
  case (Inl e)
  moreover from Inl have "trace w = [MCPStreamableHTTPTool tool_name tool_url]"
    by (simp add: run_defs rme_defs)
  ultimately show ?thesis by (rule tool_new_raises)
next
  case t: (Inr t)
  show ?thesis
  proof (cases "mcp_tool_aenter w t")
    case (Inl e)
    moreover from t Inl
    have "trace w = [MCPStreamableHTTPTool tool_name tool_url, Tool_aenter t]"
      by (simp add: run_defs rme_defs)
    ultimately show ?thesis using t tool_aenter_raises by blast
  next
    case s: (Inr s)
    show ?thesis
    proof (cases "cli_credential_new w")
      case (Inl e)
      moreover from t s Inl
      have "trace w = [MCPStreamableHTTPTool tool_name tool_url, Tool_aenter t,
                  AzureCliCredential, Tool_aexit t (Some e)]"
        by (simp add: run_defs rme_defs split: sum.splits)
      ultimately show ?thesis using t s credential_raises by blast
    next
      case c: (Inr c)
      show ?thesis
      proof (cases "chat_client_new w c")
        case (Inl e)
        moreover from t s c Inl
        have "trace w = [MCPStreamableHTTPTool tool_name tool_url, Tool_aenter t,
                  AzureCliCredential, AzureOpenAIChatClient c, Tool_aexit t (Some e)]"
          by (simp add: run_defs rme_defs split: sum.splits)
        ultimately show ?thesis using t s c chat_client_raises by blast
      next
        case k: (Inr k)
        show ?thesis
        proof (cases "chat_agent_new w k agent_name agent_instructions")
          case (Inl e)
          moreover from t s c k Inl
          have "trace w = [MCPStreamableHTTPTool tool_name tool_url, Tool_aenter t,
                  AzureCliCredential, AzureOpenAIChatClient c,
                  ChatAgent k agent_name agent_instructions, Tool_aexit t (Some e)]"
            by (simp add: run_defs rme_defs split: sum.splits)
          ultimately show ?thesis using t s c k chat_agent_raises by blast
        next
          case a: (Inr a)
          show ?thesis
          proof (cases "chat_agent_aenter w a")
            case (Inl e)
            moreover from t s c k a Inl
            have "trace w = [MCPStreamableHTTPTool tool_name tool_url, Tool_aenter t,
                  AzureCliCredential, AzureOpenAIChatClient c,
                  ChatAgent k agent_name agent_instructions, Agent_aenter a,
                  Tool_aexit t (Some e)]"
              by (simp add: run_defs rme_defs split: sum.splits)
            ultimately show ?thesis using t s c k a agent_aenter_raises by blast
          next
            case g: (Inr g)
            show ?thesis
            proof (cases "agent_run w g query_text s")
              case (Inl e)
              moreover from t s c k a g Inl
              have "\<exists>y. trace w = [MCPStreamableHTTPTool tool_name tool_url, Tool_aenter t,
                  AzureCliCredential, AzureOpenAIChatClient c,
                  ChatAgent k agent_name agent_instructions, Agent_aenter a,
                  Run g query_text s, Agent_aexit a (Some e), Tool_aexit t y]"
                by (simp add: run_defs rme_defs split: sum.splits)
              ultimately show ?thesis using t s c k a g run_raises by blast
            next
              case r: (Inr r)
              show ?thesis
              proof (cases "builtin_print w r")
                case (Inl e)
                moreover from t s c k a g r Inl
                have "\<exists>y. trace w = [MCPStreamableHTTPTool tool_name tool_url, Tool_aenter t,
                    AzureCliCredential, AzureOpenAIChatClient c,
                    ChatAgent k agent_name agent_instructions, Agent_aenter a,
                    Run g query_text s, Print r, Agent_aexit a (Some e), Tool_aexit t y]"
                  by (simp add: run_defs rme_defs split: sum.splits)
                ultimately show ?thesis using t s c k a g r print_raises by blast
              next
                case (Inr u)
                then have p: "builtin_print w r = Inr ()"
                  by simp
                from t s c k a g r p
                have "\<exists>y. trace w = [MCPStreamableHTTPTool tool_name tool_url, Tool_aenter t,
                    AzureCliCredential, AzureOpenAIChatClient c,
                    ChatAgent k agent_name agent_instructions, Agent_aenter a,
                    Run g query_text s, Print r, Agent_aexit a None, Tool_aexit t y]"
                  by (simp add: run_defs rme_defs split: sum.splits)
                then show ?thesis using t s c k a g r p run_returns by blast
              qed
            qed
          qed
        qed
      qed
    qed
  qed
qed

lemma no_load_dotenv_in_trace: "Load_dotenv \<notin> set (trace w)"
  by (cases w rule: trace_cases) simp_all

lemma no_load_dotenv_later: "Load_dotenv \<notin> set (concat (map trace later))"
  by (induction later) (simp_all add: no_load_dotenv_in_trace)




lemmas eval_defs =
  run_defs remote_mcp_example_def async_with_def call_object_def call_flag_def
  call_result_def call_none_def print_def

subsection \<open>Failure of the credential\<close>




subsection \<open>Release of the resources\<close>

text \<open>
  C2: whenever both the tool connection and the agent have been acquired (both
  \<^verbatim>\<open>__aenter__\<close> returned), the run ends with the release of the agent followed by the
  release of the tool, each awaited once, whatever the query and the releases do; when
  the query raises, the agent's release receives that exception.
\<close>

theorem acquired_resources_released:
  assumes "mcp_tool_new w ''Microsoft Learn MCP'' ''https://learn.microsoft.com/api/mcp'' = Inr t"
    and "mcp_tool_aenter w t = Inr s"
    and "cli_credential_new w = Inr c"
    and "chat_client_new w c = Inr k"
    and "chat_agent_new w k ''MSLearnAgent''
           ''You help with Microsoft documentation questions.'' = Inr a"
    and "chat_agent_aenter w a = Inr g"
  shows "(\<exists>pre x y. trace w = pre @ [Agent_aexit a x, Tool_aexit t y]
            \<and> \<not> list_ex is_Agent_aexit pre \<and> \<not> list_ex is_Tool_aexit pre)
       \<and> (agent_run w g ''What is the Azure Container Apps service'' s = Inl e \<longrightarrow>
            (\<exists>y. trace w =
               [MCPStreamableHTTPTool ''Microsoft Learn MCP''
                  ''https://learn.microsoft.com/api/mcp'',
                Tool_aenter t, AzureCliCredential, AzureOpenAIChatClient c,
                ChatAgent k ''MSLearnAgent''
                  ''You help with Microsoft documentation questions.'',
                Agent_aenter a, Run g ''What is the Azure Container Apps service'' s,
                Agent_aexit a (Some e), Tool_aexit t y]))"
  using assms unfolding literal_defs[symmetric] run_defs rme_defs
  by (simp split: sum.splits)

theorem acquired_resources_released_witness:
  "mcp_tool_new mock_query_fails ''Microsoft Learn MCP'' ''https://learn.microsoft.com/api/mcp'' = Inr 1
   \<and> mcp_tool_aenter mock_query_fails 1 = Inr 1
   \<and> cli_credential_new mock_query_fails = Inr 2
   \<and> chat_client_new mock_query_fails 2 = Inr 3
   \<and> chat_agent_new mock_query_fails 3 ''MSLearnAgent''
         ''You help with Microsoft documentation questions.'' = Inr 4
   \<and> chat_agent_aenter mock_query_fails 4 = Inr 4
   \<and> agent_run mock_query_fails 4 ''What is the Azure Container Apps service'' 1
       = Inl (Exception ''BackendError'')
   \<and> (\<exists>pre x y. trace mock_query_fails = pre @ [Agent_aexit 4 x, Tool_aexit 1 y]
            \<and> \<not> list_ex is_Agent_aexit pre \<and> \<not> list_ex is_Tool_aexit pre)
   \<and> (\<exists>y. trace mock_query_fails =
               [MCPStreamableHTTPTool ''Microsoft Learn MCP''
                  ''https://learn.microsoft.com/api/mcp'',
                Tool_aenter 1, AzureCliCredential, AzureOpenAIChatClient 2,
                ChatAgent 3 ''MSLearnAgent''
                  ''You help with Microsoft documentation questions.'',
                Agent_aenter 4, Run 4 ''What is the Azure Container Apps service'' 1,
                Agent_aexit 4 (Some (Exception ''BackendError'')), Tool_aexit 1 y])"
  using acquired_resources_released
    [of mock_query_fails 1 1 2 3 4 4 "Exception ''BackendError''"]
  by (simp add: mock_defs)

text \<open>
  C3: on the success path (every acquisition succeeded, the query returned and its result
  was printed) the agent is released, with no exception in flight, strictly before the
  tool connection is, and neither is released earlier in the run.
\<close>

theorem release_order_on_success:
  assumes "mcp_tool_new w ''Microsoft Learn MCP'' ''https://learn.microsoft.com/api/mcp'' = Inr t"
    and "mcp_tool_aenter w t = Inr s"
    and "cli_credential_new w = Inr c"
    and "chat_client_new w c = Inr k"
    and "chat_agent_new w k ''MSLearnAgent''
           ''You help with Microsoft documentation questions.'' = Inr a"
    and "chat_agent_aenter w a = Inr g"
    and "agent_run w g ''What is the Azure Container Apps service'' s = Inr r"
    and "builtin_print w r = Inr ()"
  shows "\<exists>pre y. trace w = pre @ [Agent_aexit a None, Tool_aexit t y]
            \<and> \<not> list_ex is_Agent_aexit pre \<and> \<not> list_ex is_Tool_aexit pre"
  using assms unfolding literal_defs[symmetric] run_defs rme_defs
  by (simp split: sum.splits)

theorem release_order_on_success_witness:
  "mcp_tool_new mock ''Microsoft Learn MCP'' ''https://learn.microsoft.com/api/mcp'' = Inr 1
   \<and> mcp_tool_aenter mock 1 = Inr 1
   \<and> cli_credential_new mock = Inr 2
   \<and> chat_client_new mock 2 = Inr 3
   \<and> chat_agent_new mock 3 ''MSLearnAgent''
         ''You help with Microsoft documentation questions.'' = Inr 4
   \<and> chat_agent_aenter mock 4 = Inr 4
   \<and> agent_run mock 4 ''What is the Azure Container Apps service'' 1
       = Inr ''Azure Container Apps is a serverless container service.''
   \<and> builtin_print mock ''Azure Container Apps is a serverless container service.'' = Inr ()
   \<and> (\<exists>pre y. trace mock = pre @ [Agent_aexit 4 None, Tool_aexit 1 y]
            \<and> \<not> list_ex is_Agent_aexit pre \<and> \<not> list_ex is_Tool_aexit pre)"
  using release_order_on_success
    [of mock 1 1 2 3 4 4 "''Azure Container Apps is a serverless container service.''"]
  by (simp add: mock_defs)

subsection \<open>Failure of the tool connection\<close>

text \<open>
  C4: when the tool connection cannot be opened (its constructor or its
  \<^verbatim>\<open>__aenter__\<close> raises), the run ends with that exception; no credential is asked
  for, no agent is constructed, no query is issued, nothing is printed, and no release is
  awaited.
\<close>

theorem tool_open_failure_aborts:
  assumes "mcp_tool_new w ''Microsoft Learn MCP'' ''https://learn.microsoft.com/api/mcp'' = Inl e
         \<or> (mcp_tool_new w ''Microsoft Learn MCP'' ''https://learn.microsoft.com/api/mcp'' = Inr t
            \<and> mcp_tool_aenter w t = Inl e)"
  shows "outcome w = Inl e
       \<and> \<not> list_ex is_ChatAgent (trace w) \<and> \<not> list_ex is_Run (trace w)
       \<and> \<not> list_ex is_AzureCliCredential (trace w) \<and> \<not> list_ex is_Tool_aexit (trace w)
       \<and> stdout w = []"
  using assms unfolding literal_defs[symmetric] run_defs rme_defs
  by (elim disjE conjE) simp_all

theorem tool_open_failure_aborts_witness:
  "mcp_tool_new mock_tool_unreachable ''Microsoft Learn MCP''
       ''https://learn.microsoft.com/api/mcp'' = Inr 1
   \<and> mcp_tool_aenter mock_tool_unreachable 1 = Inl (Exception ''ConnectionError'')
   \<and> outcome mock_tool_unreachable = Inl (Exception ''ConnectionError'')
   \<and> \<not> list_ex is_ChatAgent (trace mock_tool_unreachable)
   \<and> \<not> list_ex is_Run (trace mock_tool_unreachable)
   \<and> \<not> list_ex is_AzureCliCredential (trace mock_tool_unreachable)
   \<and> \<not> list_ex is_Tool_aexit (trace mock_tool_unreachable)
   \<and> stdout mock_tool_unreachable = []"
  using tool_open_failure_aborts
    [of mock_tool_unreachable "Exception ''ConnectionError''" 1]
  by (simp add: mock_defs)

subsection \<open>The query and its result\<close>

text \<open>
  C5, as stated: for every result the query returns, the run prints it and then returns
  normally.  It need not: the two releases come after the print, and what they raise is
  what the run ends with.  With a tool connection whose release raises, the result is
  printed and the run ends with the release's exception.
\<close>

theorem printed_but_release_raises:
  "agent_run mock_tool_close_fails 4 ''What is the Azure Container Apps service'' 1
     = Inr ''Azure Container Apps is a serverless container service.''
   \<and> stdout mock_tool_close_fails
     = [''Azure Container Apps is a serverless container service.'']
   \<and> outcome mock_tool_close_fails = Inl (Exception ''ToolCloseError'')
   \<and> outcome mock_tool_close_fails \<noteq> Inr ()"
  unfolding eval_defs mock_defs
  by simp

text \<open>
  C5, amended: when every acquisition succeeds and the query returns a value \<open>r\<close>, the run
  issues exactly one query, on the entered agent and with the entered tool connection as
  its tools, and calls \<^verbatim>\<open>print\<close> exactly once, on exactly \<open>r\<close>; when that print returns,
  standard output is exactly \<open>r\<close>, once; and when the print and both releases return, the
  run returns None.
\<close>

theorem one_query_printed_once:
  assumes "mcp_tool_new w ''Microsoft Learn MCP'' ''https://learn.microsoft.com/api/mcp'' = Inr t"
    and "mcp_tool_aenter w t = Inr s"
    and "cli_credential_new w = Inr c"
    and "chat_client_new w c = Inr k"
    and "chat_agent_new w k ''MSLearnAgent''
           ''You help with Microsoft documentation questions.'' = Inr a"
    and "chat_agent_aenter w a = Inr g"
    and "agent_run w g ''What is the Azure Container Apps service'' s = Inr r"
  shows "filter is_Run (trace w) = [Run g ''What is the Azure Container Apps service'' s]
       \<and> filter is_Print (trace w) = [Print r]
       \<and> (builtin_print w r = Inr () \<longrightarrow> stdout w = [r])
       \<and> (builtin_print w r = Inr () \<and> chat_agent_aexit w a None = Inr b
            \<and> mcp_tool_aexit w t None = Inr b' \<longrightarrow> outcome w = Inr ())"
  using assms unfolding literal_defs[symmetric] run_defs rme_defs
  by (simp split: sum.splits)

theorem one_query_printed_once_witness:
  "mcp_tool_new mock ''Microsoft Learn MCP'' ''https://learn.microsoft.com/api/mcp'' = Inr 1
   \<and> mcp_tool_aenter mock 1 = Inr 1
   \<and> cli_credential_new mock = Inr 2
   \<and> chat_client_new mock 2 = Inr 3
   \<and> chat_agent_new mock 3 ''MSLearnAgent''
         ''You help with Microsoft documentation questions.'' = Inr 4
   \<and> chat_agent_aenter mock 4 = Inr 4
   \<and> agent_run mock 4 ''What is the Azure Container Apps service'' 1
       = Inr ''Azure Container Apps is a serverless container service.''
   \<and> builtin_print mock ''Azure Container Apps is a serverless container service.'' = Inr ()
   \<and> chat_agent_aexit mock 4 None = Inr False
   \<and> mcp_tool_aexit mock 1 None = Inr False
   \<and> filter is_Run (trace mock) = [Run 4 ''What is the Azure Container Apps service'' 1]
   \<and> filter is_Print (trace mock)
       = [Print ''Azure Container Apps is a serverless container service.'']
   \<and> stdout mock = [''Azure Container Apps is a serverless container service.'']
   \<and> outcome mock = Inr ()"
  using one_query_printed_once
    [where w = mock and t = 1 and s = 1 and c = 2 and k = 3 and a = 4 and g = 4
       and r = "''Azure Container Apps is a serverless container service.''"
       and b = False and b' = False]
  by (simp add: mock_defs)

text \<open>
  C9: whenever \<^verbatim>\<open>agent.run\<close> is called, its first argument is the literal query text
  and its \<^verbatim>\<open>tools\<close> argument is the value that \<^verbatim>\<open>__aenter__\<close> of the tool returned,
  its receiver is the value that \<^verbatim>\<open>__aenter__\<close> of the agent returned, and it is the
  only query of the run.  No field of the collaborators other than these answers enters.
\<close>

theorem query_arguments_fixed:
  assumes "Run g q s \<in> set (trace w)"
  shows "q = ''What is the Azure Container Apps service''
       \<and> (\<exists>t. mcp_tool_new w ''Microsoft Learn MCP'' ''https://learn.microsoft.com/api/mcp'' = Inr t
              \<and> mcp_tool_aenter w t = Inr s)
       \<and> (\<exists>a. chat_agent_aenter w a = Inr g)
       \<and> filter is_Run (trace w) = [Run g q s]"
  using assms unfolding literal_defs[symmetric]
  by (cases w rule: trace_cases) auto

theorem query_arguments_fixed_witness:
  "Run 4 ''What is the Azure Container Apps service'' 1 \<in> set (trace mock)
   \<and> (\<exists>t. mcp_tool_new mock ''Microsoft Learn MCP'' ''https://learn.microsoft.com/api/mcp'' = Inr t
          \<and> mcp_tool_aenter mock t = Inr 1)
   \<and> (\<exists>a. chat_agent_aenter mock a = Inr 4)
   \<and> filter is_Run (trace mock) = [Run 4 ''What is the Azure Container Apps service'' 1]"
proof -
  have called: "Run 4 ''What is the Azure Container Apps service'' 1 \<in> set (trace mock)"
    unfolding eval_defs mock_defs by simp
  from query_arguments_fixed [OF called] called show ?thesis
    by simp
qed

subsection \<open>Propagation of failures\<close>




subsection \<open>Arguments of the constructions\<close>

text \<open>
  C7: the tool connection is always constructed, with the fixed name and URL.  Whenever
  the chat client is constructed, its credential is the one \<^verbatim>\<open>AzureCliCredential()\<close>
  returned; whenever the agent is constructed, it is with a chat client made from that
  credential, the fixed name and the fixed instructions.  And when the credential is
  acquired, the chat client is constructed from it, and the agent from that client when
  the client's construction succeeds.
\<close>

theorem construction_arguments_fixed:
  "MCPStreamableHTTPTool ''Microsoft Learn MCP'' ''https://learn.microsoft.com/api/mcp''
      \<in> set (trace w)
   \<and> (MCPStreamableHTTPTool n u \<in> set (trace w) \<longrightarrow>
        n = ''Microsoft Learn MCP'' \<and> u = ''https://learn.microsoft.com/api/mcp'')
   \<and> (AzureOpenAIChatClient c' \<in> set (trace w) \<longrightarrow> cli_credential_new w = Inr c')
   \<and> (ChatAgent k' n' i' \<in> set (trace w) \<longrightarrow>
        n' = ''MSLearnAgent'' \<and> i' = ''You help with Microsoft documentation questions.''
        \<and> (\<exists>c. cli_credential_new w = Inr c \<and> chat_client_new w c = Inr k'))
   \<and> (mcp_tool_new w ''Microsoft Learn MCP'' ''https://learn.microsoft.com/api/mcp'' = Inr t
        \<and> mcp_tool_aenter w t = Inr s \<and> cli_credential_new w = Inr c \<longrightarrow>
        AzureOpenAIChatClient c \<in> set (trace w)
        \<and> (chat_client_new w c = Inr k \<longrightarrow>
             ChatAgent k ''MSLearnAgent'' ''You help with Microsoft documentation questions.''
               \<in> set (trace w)))"
  unfolding literal_defs[symmetric]
  by (cases w rule: trace_cases) auto

theorem construction_arguments_fixed_witness:
  "mcp_tool_new mock ''Microsoft Learn MCP'' ''https://learn.microsoft.com/api/mcp'' = Inr 1
   \<and> mcp_tool_aenter mock 1 = Inr 1
   \<and> cli_credential_new mock = Inr 2
   \<and> chat_client_new mock 2 = Inr 3
   \<and> MCPStreamableHTTPTool ''Microsoft Learn MCP'' ''https://learn.microsoft.com/api/mcp''
        \<in> set (trace mock)
   \<and> AzureOpenAIChatClient 2 \<in> set (trace mock)
   \<and> ChatAgent 3 ''MSLearnAgent'' ''You help with Microsoft documentation questions.''
        \<in> set (trace mock)"
  using construction_arguments_fixed [where w = mock and t = 1 and s = 1 and c = 2 and k = 3]
  by (simp add: mock_defs)

subsection \<open>Loading of the configuration\<close>

text \<open>
  C8: in every process, \<^verbatim>\<open>load_dotenv()\<close> is the first call and is made exactly once:
  it precedes every call of every invocation of the coroutine, whether the module is the
  entry point or is imported and the coroutine invoked later, any number of times.
\<close>

theorem load_dotenv_once_first:
  "\<exists>rest. process_trace w name later = Load_dotenv # rest \<and> Load_dotenv \<notin> set rest"
proof (cases "load_dotenv w")
  case (Inl e)
  then show ?thesis
    by (simp add: process_trace_def module_body_def call_flag_def)
next
  case (Inr b)
  obtain log out where run: "remote_mcp_example w = (log, out)"
    by (cases "remote_mcp_example w")
  have "Load_dotenv \<notin> set (map fst log)"
    using no_load_dotenv_in_trace [of w] by (simp add: trace_def run)
  with Inr run show ?thesis
    using no_load_dotenv_later [of later]
    by (cases out) (simp_all add: process_trace_def module_body_def call_flag_def)
qed

subsection \<open>Determinism in the collaborators\<close>



end
